theory Spec2Isabelle
  imports Main
begin

section \<open>Go strings as byte lists\<close>

text \<open>
  A Go string is a sequence of bytes; \<^typ>\<open>string\<close> is a list of 8-bit characters.
  The functions of package \<^verbatim>\<open>strings\<close> that \<^verbatim>\<open>parse.go\<close> calls are written out
  on bytes, following the behaviour of the Go standard library.
\<close>

definition nl :: char where
  "nl = CHR 0x0A"

definition HasPrefix :: "string \<Rightarrow> string \<Rightarrow> bool" where
  "HasPrefix s p = (take (length p) s = p)"

text \<open>\<^verbatim>\<open>strings.Index(s, sub)\<close>: the index of the first occurrence, or \<open>-1\<close>.\<close>

fun Index :: "string \<Rightarrow> string \<Rightarrow> int" where
  "Index [] sub = (if sub = [] then 0 else - 1)"
| "Index (c # s) sub =
     (if HasPrefix (c # s) sub then 0
      else (let i = Index s sub in if i < 0 then - 1 else i + 1))"

text \<open>\<^verbatim>\<open>strings.ReplaceAll(s, "\n", "")\<close>: every newline byte is removed.\<close>

definition strip_newlines :: "string \<Rightarrow> string" where
  "strip_newlines s = filter (\<lambda>c. c \<noteq> nl) s"

text \<open>\<^verbatim>\<open>strings.Cut(s, ":")\<close>: the text before and after the first colon; the whole
  string and the empty string when there is no colon.\<close>

definition Cut_colon :: "string \<Rightarrow> string \<times> string" where
  "Cut_colon s = (takeWhile (\<lambda>c. c \<noteq> CHR '':'') s, drop 1 (dropWhile (\<lambda>c. c \<noteq> CHR '':'') s))"

subsection \<open>TrimSpace\<close>

text \<open>
  \<^verbatim>\<open>strings.TrimSpace\<close> removes leading and trailing white space as defined by Unicode:
  the six ASCII space bytes, and the runes U+0085, U+00A0, U+1680, U+2000 to U+200A,
  U+2028, U+2029, U+202F, U+205F and U+3000, which appear in a string as their UTF-8
  encodings.
\<close>

definition asciiSpace :: "char \<Rightarrow> bool" where
  "asciiSpace c \<longleftrightarrow>
     c = CHR 0x09 \<or> c = CHR 0x0A \<or> c = CHR 0x0B \<or> c = CHR 0x0C \<or> c = CHR 0x0D \<or> c = CHR 0x20"

definition space_encodings :: "string list" where
  "space_encodings =
     [[CHR 0xC2, CHR 0x85], [CHR 0xC2, CHR 0xA0], [CHR 0xE1, CHR 0x9A, CHR 0x80],
      [CHR 0xE2, CHR 0x80, CHR 0x80], [CHR 0xE2, CHR 0x80, CHR 0x81],
      [CHR 0xE2, CHR 0x80, CHR 0x82], [CHR 0xE2, CHR 0x80, CHR 0x83],
      [CHR 0xE2, CHR 0x80, CHR 0x84], [CHR 0xE2, CHR 0x80, CHR 0x85],
      [CHR 0xE2, CHR 0x80, CHR 0x86], [CHR 0xE2, CHR 0x80, CHR 0x87],
      [CHR 0xE2, CHR 0x80, CHR 0x88], [CHR 0xE2, CHR 0x80, CHR 0x89],
      [CHR 0xE2, CHR 0x80, CHR 0x8A], [CHR 0xE2, CHR 0x80, CHR 0xA8],
      [CHR 0xE2, CHR 0x80, CHR 0xA9], [CHR 0xE2, CHR 0x80, CHR 0xAF],
      [CHR 0xE2, CHR 0x81, CHR 0x9F], [CHR 0xE3, CHR 0x80, CHR 0x80]]"

text \<open>The width in bytes of the white-space rune a string starts with; 0 when it starts
  with none. The list \<open>encs\<close> holds the multi-byte encodings to look for.\<close>

definition space_width :: "string list \<Rightarrow> string \<Rightarrow> nat" where
  "space_width encs s =
     (case s of [] \<Rightarrow> 0
      | c # _ \<Rightarrow>
          if asciiSpace c then 1
          else (case find (\<lambda>e. e \<noteq> [] \<and> HasPrefix s e) encs of
                  None \<Rightarrow> 0 | Some e \<Rightarrow> length e))"

function trim_front :: "string list \<Rightarrow> string \<Rightarrow> string" where
  "trim_front encs s =
     (let w = space_width encs s in if w = 0 then s else trim_front encs (drop w s))"
  by pat_completeness auto
termination
proof (relation "measure (\<lambda>(encs, s). length s)")
  show "wf (measure (\<lambda>(encs, s). length s))"
    by simp
next
  fix encs :: "string list" and s :: string and w :: nat
  assume "w = space_width encs s" and "w \<noteq> 0"
  then have "s \<noteq> []" and "0 < w"
    by (auto simp: space_width_def)
  then show "((encs, drop w s), (encs, s)) \<in> measure (\<lambda>(encs, s). length s)"
    by simp
qed

declare trim_front.simps [simp del]

definition TrimLeftSpace :: "string \<Rightarrow> string" where
  "TrimLeftSpace s = trim_front space_encodings s"

text \<open>Trailing white space is removed rune by rune from the end: on the reversed string,
  with the encodings reversed.\<close>

definition TrimRightSpace :: "string \<Rightarrow> string" where
  "TrimRightSpace s = rev (trim_front (map rev space_encodings) (rev s))"

definition TrimSpace :: "string \<Rightarrow> string" where
  "TrimSpace s = TrimRightSpace (TrimLeftSpace s)"

subsection \<open>ToLower\<close>

text \<open>
  \<^verbatim>\<open>strings.ToLower\<close> maps the bytes \<open>A\<close> to \<open>Z\<close> of an ASCII-only string to
  \<open>a\<close> to \<open>z\<close>. A string with a byte of 0x80 or more goes through the Unicode case
  tables, \<^verbatim>\<open>strings.Map(unicode.ToLower, s)\<close>; the tables are not part of the
  repository and enter as the parameter \<open>umap\<close>.
\<close>

definition isASCII :: "string \<Rightarrow> bool" where
  "isASCII s = list_all (\<lambda>c. (of_char c :: nat) < 128) s"

definition isUpperByte :: "char \<Rightarrow> bool" where
  "isUpperByte c \<longleftrightarrow> 65 \<le> (of_char c :: nat) \<and> (of_char c :: nat) \<le> 90"

definition lower_byte :: "char \<Rightarrow> char" where
  "lower_byte c = (if isUpperByte c then char_of ((of_char c :: nat) + 32) else c)"

definition ToLower :: "(string \<Rightarrow> string) \<Rightarrow> string \<Rightarrow> string" where
  "ToLower umap s = (if isASCII s then map lower_byte s else umap s)"

section \<open>The collaborators of the parser\<close>

text \<open>
  \<^verbatim>\<open>parse.go\<close> calls four packages that are not part of the repository. Each call is a
  field of the record below, and every theorem holds for all values of the fields.
  \<^item> \<open>shellwords_Parse\<close>: \<^verbatim>\<open>shellwords.Parse\<close>, the word splitter;
  \<^item> \<open>json_Unmarshal\<close>: \<^verbatim>\<open>json.Unmarshal\<close> into a \<^verbatim>\<open>map[string]interface{}\<close>;
  \<^item> \<open>json_Encode\<close>: \<^verbatim>\<open>Encoder.Encode\<close> of such a map into a buffer, after
    \<^verbatim>\<open>SetEscapeHTML\<close> with the given flag;
  \<^item> \<open>base64_EncodeToString\<close>: \<^verbatim>\<open>base64.StdEncoding.EncodeToString\<close>;
  \<^item> \<open>unicode_ToLower\<close>: \<^verbatim>\<open>strings.Map(unicode.ToLower, s)\<close>, see \<^const>\<open>ToLower\<close>.
\<close>

record ('e, 'j, 'd) lib =
  shellwords_Parse :: "string \<Rightarrow> 'e + string list"
  json_Unmarshal :: "string \<Rightarrow> 'j + 'd"
  json_Encode :: "bool \<Rightarrow> 'd \<Rightarrow> 'j + string"
  base64_EncodeToString :: "string \<Rightarrow> string"
  unicode_ToLower :: "string \<Rightarrow> string"

datatype ('e, 'j) error =
  ErrNotValidCurlCommand string
  | ShellwordsError 'e
  | JSONError 'j

section \<open>The request\<close>

definition KeyContentType :: string where "KeyContentType = ''content-type''"
definition KeyUserAgent :: string where "KeyUserAgent = ''user-agent''"
definition KeyCookie :: string where "KeyCookie = ''cookie''"
definition KeyAuthorization :: string where "KeyAuthorization = ''authorization''"
definition ContentTypeJSON :: string where "ContentTypeJSON = ''application/json''"

definition MethodGet :: string where "MethodGet = ''GET''"
definition MethodHead :: string where "MethodHead = ''HEAD''"
definition MethodPost :: string where "MethodPost = ''POST''"

record Request =
  Method :: string
  URL :: string
  Header :: "string \<rightharpoonup> string"
  Body :: string
  SkipTLS :: bool
  Timeout :: string

text \<open>The request \<^verbatim>\<open>Parse\<close> starts from: method GET, an empty header map, every other
  field at its zero value.\<close>

definition new_request :: Request where
  "new_request =
     \<lparr>Method = MethodGet, URL = [], Header = Map.empty, Body = [], SkipTLS = False, Timeout = []\<rparr>"

section \<open>sanitize\<close>

fun sanitize_loop :: "string list \<Rightarrow> string list \<Rightarrow> string list" where
  "sanitize_loop res [] = res"
| "sanitize_loop res (arg # args) =
     (let arg = TrimSpace arg in
      if arg = [nl] then sanitize_loop res args
      else
        let arg = (if nl \<in> set arg then strip_newlines arg else arg) in
        if HasPrefix arg ''-X'' \<and> length arg > 2
        then sanitize_loop (res @ [take 2 arg, drop 2 arg]) args
        else sanitize_loop (res @ [arg]) args)"

definition sanitize :: "string list \<Rightarrow> string list" where
  "sanitize args = sanitize_loop [] args"

section \<open>isURL\<close>

text \<open>
  \<^verbatim>\<open>regexp.MatchString("^https?://.*$", u)\<close>: the pattern compiles, so the error is
  nil; \<open>^\<close> and \<open>$\<close> are the start and the end of the text and \<open>.\<close> is any character but
  a newline. The string matches when it starts with \<open>http://\<close> or \<open>https://\<close> and has
  no newline after that.
\<close>

definition isURL :: "string \<Rightarrow> bool" where
  "isURL u \<longleftrightarrow>
     (HasPrefix u ''http://'' \<and> nl \<notin> set (drop 7 u)) \<or>
     (HasPrefix u ''https://'' \<and> nl \<notin> set (drop 8 u))"

section \<open>Parse\<close>

text \<open>The inner \<^verbatim>\<open>switch argType\<close>: the token is the value of the pending flag.\<close>

definition consume :: "('e, 'j, 'd) lib \<Rightarrow> string \<Rightarrow> Request \<Rightarrow> string \<Rightarrow> string \<times> Request" where
  "consume L argType req arg =
     (if argType = ''header'' then
        (let (key, val) = Cut_colon arg in
         ([], req\<lparr>Header := (Header req)(ToLower (unicode_ToLower L) key \<mapsto> TrimSpace val)\<rparr>))
      else if argType = ''user-agent'' then
        ([], req\<lparr>Header := (Header req)(KeyUserAgent \<mapsto> arg)\<rparr>)
      else if argType = ''data'' then
        (let req = (if Method req = MethodGet \<or> Method req = MethodHead
                    then req\<lparr>Method := MethodPost\<rparr> else req);
             req = (if Header req KeyContentType = None
                    then req\<lparr>Header := (Header req)(KeyContentType \<mapsto> ''application/x-www-form-urlencoded'')\<rparr>
                    else req);
             req = (if length (Body req) = 0 then req\<lparr>Body := arg\<rparr>
                    else req\<lparr>Body := Body req @ ''&'' @ arg\<rparr>)
         in ([], req))
      else if argType = ''user'' then
        ([], req\<lparr>Header := (Header req)(KeyAuthorization \<mapsto> ''Basic '' @ base64_EncodeToString L arg)\<rparr>)
      else if argType = ''method'' then
        ([], req\<lparr>Method := arg\<rparr>)
      else if argType = ''cookie'' then
        ([], req\<lparr>Header := (Header req)(KeyCookie \<mapsto> arg)\<rparr>)
      else if argType = ''timeout'' then
        ([], req\<lparr>Timeout := arg\<rparr>)
      else (argType, req))"

text \<open>One iteration of the loop over the tokens: the outer \<^verbatim>\<open>switch\<close>, first matching
  case first. The state is the pending \<^verbatim>\<open>argType\<close> and the request.\<close>

definition parse_arg :: "('e, 'j, 'd) lib \<Rightarrow> string \<times> Request \<Rightarrow> string \<Rightarrow> string \<times> Request" where
  "parse_arg L st arg =
     (let (argType, req) = st in
      if isURL arg then (argType, req\<lparr>URL := arg\<rparr>)
      else if arg = ''-A'' \<or> arg = ''--user-agent'' then (''user-agent'', req)
      else if arg = ''-H'' \<or> arg = ''--header'' then (''header'', req)
      else if arg = ''-d'' \<or> arg = ''--data'' \<or> arg = ''--data-ascii'' \<or> arg = ''--data-raw''
        then (''data'', req)
      else if arg = ''-u'' \<or> arg = ''--user'' then (''user'', req)
      else if arg = ''-I'' \<or> arg = ''--head'' then (argType, req\<lparr>Method := ''HEAD''\<rparr>)
      else if arg = ''-X'' \<or> arg = ''--request'' then (''method'', req)
      else if arg = ''-b'' \<or> arg = ''--cookie'' then (''cookie'', req)
      else if arg = ''-k'' \<or> arg = ''--insecure'' then (argType, req\<lparr>SkipTLS := True\<rparr>)
      else if arg = ''-m'' \<or> arg = ''--max-time'' then (''timeout'', req)
      else consume L argType req arg)"

definition parse_args :: "('e, 'j, 'd) lib \<Rightarrow> string list \<Rightarrow> string \<times> Request" where
  "parse_args L args = foldl (parse_arg L) ([], new_request) args"

text \<open>The block after the loop: a body under the JSON content type is decoded and encoded
  again. A key that is absent reads as the empty string in Go.\<close>

definition format_json :: "('e, 'j, 'd) lib \<Rightarrow> Request \<Rightarrow> ('e, 'j) error + Request" where
  "format_json L req =
     (if (case Header req KeyContentType of None \<Rightarrow> [] | Some val \<Rightarrow> val) = ContentTypeJSON then
        (case json_Unmarshal L (Body req) of
           Inl err \<Rightarrow> Inl (JSONError err)
         | Inr data \<Rightarrow>
             (case json_Encode L False data of
                Inl err \<Rightarrow> Inl (JSONError err)
              | Inr buf \<Rightarrow> Inr (req\<lparr>Body := strip_newlines buf\<rparr>)))
      else Inr req)"

definition Parse :: "('e, 'j, 'd) lib \<Rightarrow> string \<Rightarrow> ('e, 'j) error + Request" where
  "Parse L curl =
     (if Index curl ''curl '' \<noteq> 0 then Inl (ErrNotValidCurlCommand curl)
      else (case shellwords_Parse L curl of
              Inl err \<Rightarrow> Inl (ShellwordsError err)
            | Inr args \<Rightarrow> format_json L (snd (parse_args L (sanitize args)))))"

section \<open>Notions the properties are stated with\<close>

text \<open>The flag spellings of the outer \<^verbatim>\<open>switch\<close>: a token that is one of them is never
  the value of a pending flag.\<close>

definition isFlag :: "string \<Rightarrow> bool" where
  "isFlag arg \<longleftrightarrow>
     arg \<in> set [''-A'', ''--user-agent'', ''-H'', ''--header'', ''-d'', ''--data'', ''--data-ascii'',
                ''--data-raw'', ''-u'', ''--user'', ''-I'', ''--head'', ''-X'', ''--request'',
                ''-b'', ''--cookie'', ''-k'', ''--insecure'', ''-m'', ''--max-time'']"

text \<open>A token is URL-shaped when it begins with \<open>http://\<close> or \<open>https://\<close>.\<close>

definition url_shaped :: "string \<Rightarrow> bool" where
  "url_shaped t \<longleftrightarrow> HasPrefix t ''http://'' \<or> HasPrefix t ''https://''"

text \<open>A string is lowercase when none of its bytes is one of the letters \<open>A\<close> to
  \<open>Z\<close>.\<close>

definition no_upper :: "string \<Rightarrow> bool" where
  "no_upper s = list_all (\<lambda>c. \<not> isUpperByte c) s"

text \<open>The tokens \<^const>\<open>sanitize\<close> emits for one word.\<close>

definition sanitize_word :: "string \<Rightarrow> string list" where
  "sanitize_word w =
     (let arg = TrimSpace w in
      if arg = [nl] then []
      else
        let arg = (if nl \<in> set arg then strip_newlines arg else arg) in
        if HasPrefix arg ''-X'' \<and> length arg > 2 then [take 2 arg, drop 2 arg] else [arg])"

section \<open>A table-driven instance of the collaborators\<close>

text \<open>
  For evaluating \<^const>\<open>Parse\<close> on examples: the splitter returns the words \<open>ws\<close>,
  the JSON decoder knows the documents listed in \<open>docs\<close> (the text of a body paired with
  its compact encoding, which stands for the decoded map) and rejects every other
  body, the encoder writes the encoding and the newline that \<^verbatim>\<open>Encode\<close> ends with,
  and the case mapping lowers the ASCII letters.
\<close>

definition table_lib :: "string list \<Rightarrow> (string \<times> string) list \<Rightarrow> (unit, unit, string) lib" where
  "table_lib ws docs =
     \<lparr>shellwords_Parse = (\<lambda>_. Inr ws),
      json_Unmarshal = (\<lambda>s. case map_of docs s of None \<Rightarrow> Inl () | Some d \<Rightarrow> Inr d),
      json_Encode = (\<lambda>esc d. Inr (d @ [nl])),
      base64_EncodeToString = (\<lambda>s. s),
      unicode_ToLower = map lower_byte\<rparr>"

section \<open>Facts about the string functions\<close>

lemma Index_lower_bound: "- 1 \<le> Index s sub"
  by (induction s) (auto simp: Let_def)

lemma Index_zero_iff: "Index s sub = 0 \<longleftrightarrow> HasPrefix s sub"
proof (cases s)
  case Nil
  then show ?thesis by (auto simp: HasPrefix_def)
next
  case (Cons c s')
  have "- 1 \<le> Index s' sub" by (rule Index_lower_bound)
  then show ?thesis using Cons by (auto simp: Let_def)
qed

section \<open>The command-name check\<close>

lemma format_json_not_invalid: "format_json L req \<noteq> Inl (ErrNotValidCurlCommand x)"
  by (auto simp: format_json_def split: sum.splits)

text \<open>
  Claim C3. \<^const>\<open>Parse\<close> returns the error \<open>ErrNotValidCurlCommand\<close>, and so no
  request, exactly when the input does not start with \<open>curl\<close> and a space. In that case
  the result is the same for every word splitter: the splitter is not consulted. When
  the input starts with the prefix, no \<open>ErrNotValidCurlCommand\<close> is returned.
\<close>

theorem Parse_invalid_command:
  "(\<not> HasPrefix curl ''curl '' \<longrightarrow> Parse L curl = Inl (ErrNotValidCurlCommand curl)) \<and>
   (HasPrefix curl ''curl '' \<longrightarrow> (\<forall>x. Parse L curl \<noteq> Inl (ErrNotValidCurlCommand x)))"
  by (auto simp: Parse_def Index_zero_iff format_json_not_invalid split: sum.splits)

theorem Parse_invalid_command_witness:
  "\<not> HasPrefix ''wget https://x'' ''curl '' \<and>
   Parse (table_lib [''wget'', ''https://x''] []) ''wget https://x''
     = Inl (ErrNotValidCurlCommand ''wget https://x'') \<and>
   HasPrefix ''curl https://x'' ''curl '' \<and>
   (\<forall>x. Parse (table_lib [''curl'', ''https://x''] []) ''curl https://x''
     \<noteq> Inl (ErrNotValidCurlCommand x))"
  using Parse_invalid_command [of "''wget https://x''" "table_lib [''wget'', ''https://x''] []"]
    Parse_invalid_command [of "''curl https://x''" "table_lib [''curl'', ''https://x''] []"]
  by (simp add: HasPrefix_def)

section \<open>One step of the state machine\<close>

lemma parse_arg_default:
  "\<not> isURL arg \<Longrightarrow> \<not> isFlag arg \<Longrightarrow> parse_arg L (t, req) arg = consume L t req arg"
  by (simp add: parse_arg_def isFlag_def)

lemma parse_arg_url: "isURL u \<Longrightarrow> parse_arg L (t, req) u = (t, req\<lparr>URL := u\<rparr>)"
  by (simp add: parse_arg_def)

lemma consume_URL_update:
  "consume L t (req\<lparr>URL := u\<rparr>) p = (fst (consume L t req p), (snd (consume L t req p))\<lparr>URL := u\<rparr>)"
  by (simp add: consume_def Let_def split: prod.splits)

lemma parse_arg_URL_update:
  "\<not> isURL p \<Longrightarrow>
   parse_arg L (t, req\<lparr>URL := u\<rparr>) p
     = (fst (parse_arg L (t, req) p), (snd (parse_arg L (t, req) p))\<lparr>URL := u\<rparr>)"
  by (simp add: parse_arg_def consume_URL_update)

lemma empty_not_special: "\<not> isURL [] \<and> \<not> isFlag []"
  by (simp add: isURL_def HasPrefix_def isFlag_def)

lemma TrimSpace_Nil: "TrimSpace [] = []"
  by (simp add: TrimSpace_def TrimLeftSpace_def TrimRightSpace_def trim_front.simps space_width_def)

lemma Cut_colon_found:
  "CHR '':'' \<notin> set key \<Longrightarrow> Cut_colon (key @ CHR '':'' # val) = (key, val)"
  by (induction key) (auto simp: Cut_colon_def)

lemma Cut_colon_absent: "CHR '':'' \<notin> set arg \<Longrightarrow> Cut_colon arg = (arg, [])"
  by (induction arg) (auto simp: Cut_colon_def)

subsection \<open>Data payloads\<close>

text \<open>
  Claim C1. A token that reaches the inner switch while the pending state is \<open>data\<close>
  (it is neither a URL nor a flag) is appended to the body, after \<open>&\<close> when the body is
  not empty; a method of GET or HEAD becomes POST; a header map without a content-type
  entry gets \<open>application/x-www-form-urlencoded\<close>; the pending state is cleared.
\<close>

theorem data_payload_appended:
  assumes "\<not> isURL arg" and "\<not> isFlag arg"
  shows "parse_arg L (''data'', req) arg =
     ([], req\<lparr>Method := (if Method req = ''GET'' \<or> Method req = ''HEAD'' then ''POST'' else Method req),
              Header := (if Header req ''content-type'' = None
                         then (Header req)(''content-type'' \<mapsto> ''application/x-www-form-urlencoded'')
                         else Header req),
              Body := (if Body req = [] then arg else Body req @ ''&'' @ arg)\<rparr>)"
  using assms
  by (simp add: parse_arg_default consume_def Let_def MethodGet_def MethodHead_def MethodPost_def
      KeyContentType_def)

theorem data_payload_appended_witness:
  "\<not> isURL ''b=2'' \<and> \<not> isFlag ''b=2'' \<and>
   parse_arg (table_lib [] []) (''data'', new_request\<lparr>Body := ''a=1''\<rparr>) ''b=2''
     = ([], new_request\<lparr>Method := ''POST'',
          Header := [''content-type'' \<mapsto> ''application/x-www-form-urlencoded''],
          Body := ''a=1&b=2''\<rparr>)"
  using data_payload_appended [of "''b=2''" "table_lib [] []" "new_request\<lparr>Body := ''a=1''\<rparr>"]
  by (simp add: isURL_def HasPrefix_def isFlag_def new_request_def MethodGet_def)

text \<open>The example of the specification: two data flags give \<open>a=1&b=2\<close> and POST.\<close>

lemma repeated_data_example:
  "Body (snd (parse_args (table_lib [] [])
      (sanitize [''curl'', ''-d'', ''a=1'', ''-d'', ''b=2'', ''https://x'']))) = ''a=1&b=2'' \<and>
   Method (snd (parse_args (table_lib [] [])
      (sanitize [''curl'', ''-d'', ''a=1'', ''-d'', ''b=2'', ''https://x'']))) = ''POST''"
  by code_simp

subsection \<open>URL tokens and the pending state\<close>

text \<open>
  Claim C9. A URL token is stored in \<open>URL\<close> and leaves the pending state as it was,
  whatever that state is. So when a URL stands between a flag and the next token, the
  next token (not itself a URL) is treated exactly as if the URL had not been there:
  same pending state afterwards, same request but for the URL.
\<close>

theorem url_keeps_pending_state:
  assumes "isURL u"
  shows "parse_arg L (t, req) u = (t, req\<lparr>URL := u\<rparr>) \<and>
    (\<forall>p. \<not> isURL p \<longrightarrow>
        parse_arg L (parse_arg L (t, req) u) p
          = (fst (parse_arg L (t, req) p), (snd (parse_arg L (t, req) p))\<lparr>URL := u\<rparr>))"
  using assms by (simp add: parse_arg_url parse_arg_URL_update)

theorem url_keeps_pending_state_witness:
  "isURL ''https://x'' \<and>
   parse_arg (table_lib [] []) (''data'', new_request) ''https://x''
     = (''data'', new_request\<lparr>URL := ''https://x''\<rparr>) \<and>
   \<not> isURL ''a=1'' \<and>
   parse_arg (table_lib [] [])
       (parse_arg (table_lib [] []) (''data'', new_request) ''https://x'') ''a=1''
     = ([], new_request\<lparr>Method := ''POST'', URL := ''https://x'',
          Header := [''content-type'' \<mapsto> ''application/x-www-form-urlencoded''],
          Body := ''a=1''\<rparr>)"
proof -
  have u: "isURL ''https://x''"
    by (simp add: isURL_def HasPrefix_def nl_def)
  have p: "\<not> isURL ''a=1''" "\<not> isFlag ''a=1''"
    by (simp_all add: isURL_def HasPrefix_def isFlag_def)
  have "parse_arg (table_lib [] []) (''data'', new_request) ''a=1''
     = ([], new_request\<lparr>Method := ''POST'',
          Header := [''content-type'' \<mapsto> ''application/x-www-form-urlencoded''],
          Body := ''a=1''\<rparr>)"
    using p
    by (simp add: parse_arg_default consume_def Let_def new_request_def MethodGet_def
        MethodPost_def KeyContentType_def)
  moreover note url_keeps_pending_state [OF u, of "table_lib [] []" "''data''" new_request]
  ultimately show ?thesis
    using u p by auto
qed


subsection \<open>Header payloads\<close>

text \<open>
  Claim C6, as the code has it. A token that reaches the inner switch while the pending
  state is \<open>header\<close> is cut at its first colon. The header name is the text before the
  colon in lower case, with nothing trimmed; the value is the text after the colon with
  white space trimmed at both ends; the entry replaces any entry of that name, and the
  pending state is cleared. A token without a colon is the name, with the empty value.
\<close>

theorem header_payload_stored:
  assumes "\<not> isURL arg" and "\<not> isFlag arg"
  shows "(\<forall>key val. arg = key @ CHR '':'' # val \<and> CHR '':'' \<notin> set key \<longrightarrow>
            parse_arg L (''header'', req) arg
              = ([], req\<lparr>Header := (Header req)(ToLower (unicode_ToLower L) key \<mapsto> TrimSpace val)\<rparr>)) \<and>
         (CHR '':'' \<notin> set arg \<longrightarrow>
            parse_arg L (''header'', req) arg
              = ([], req\<lparr>Header := (Header req)(ToLower (unicode_ToLower L) arg \<mapsto> [])\<rparr>))"
  using assms
  by (auto simp: parse_arg_default consume_def Cut_colon_found Cut_colon_absent TrimSpace_Nil)

theorem header_payload_stored_witness:
  "\<not> isURL ''Accept : x '' \<and> \<not> isFlag ''Accept : x '' \<and>
   parse_arg (table_lib [] []) (''header'', new_request\<lparr>Header := [''accept '' \<mapsto> ''y'']\<rparr>)
       ''Accept : x ''
     = ([], new_request\<lparr>Header := [''accept '' \<mapsto> ''x'']\<rparr>)"
proof -
  have a: "\<not> isURL ''Accept : x ''" "\<not> isFlag ''Accept : x ''"
    by (simp_all add: isURL_def HasPrefix_def isFlag_def)
  have k: "ToLower (unicode_ToLower (table_lib [] [])) ''Accept '' = ''accept ''"
    by code_simp
  have v: "TrimSpace '' x '' = ''x''"
    by code_simp
  have c: "''Accept : x '' = ''Accept '' @ CHR '':'' # '' x '' \<and> CHR '':'' \<notin> set ''Accept ''"
    by simp
  show ?thesis
    using a header_payload_stored [OF a, THEN conjunct1, rule_format, OF c, of "table_lib [] []"
      "new_request\<lparr>Header := [''accept '' \<mapsto> ''y'']\<rparr>"]
    by (simp add: k v new_request_def)
qed

text \<open>The name is not trimmed: \<open>Accept : x\<close> is stored under \<open>accept\<close> followed by a
  space, and no entry \<open>accept\<close> exists.\<close>

theorem header_key_trimmed_counterexample:
  "Header (snd (parse_args (table_lib [] []) (sanitize [''curl'', ''-H'', ''Accept : x''])))
     ''accept'' = None \<and>
   Header (snd (parse_args (table_lib [] []) (sanitize [''curl'', ''-H'', ''Accept : x''])))
     ''accept '' = Some ''x'' \<and>
   Header (snd (parse_args (table_lib [] []) (sanitize [''curl'', ''-H'', ''Accept : x''])))
     (TrimSpace (ToLower (unicode_ToLower (table_lib [] [])) ''Accept ''))
     \<noteq> Some (TrimLeftSpace '' x'')"
  by code_simp

subsection \<open>Empty tokens\<close>

text \<open>
  Claim C7, as the code has it. The empty token is neither a URL nor a flag, so it
  reaches the inner switch and is the value of whatever flag is pending. Under a pending
  \<open>data\<close> it promotes GET and HEAD to POST, sets the default content type when none is
  set, leaves an empty body empty and appends \<open>&\<close> to a body that is not empty, and
  clears the pending state.
\<close>

theorem empty_token_consumed:
  "parse_arg L (t, req) [] = consume L t req [] \<and>
   parse_arg L (''data'', req) [] =
     ([], req\<lparr>Method := (if Method req = ''GET'' \<or> Method req = ''HEAD'' then ''POST'' else Method req),
              Header := (if Header req ''content-type'' = None
                         then (Header req)(''content-type'' \<mapsto> ''application/x-www-form-urlencoded'')
                         else Header req),
              Body := (if Body req = [] then [] else Body req @ ''&'')\<rparr>)"
  using empty_not_special
  by (simp add: parse_arg_default consume_def Let_def MethodGet_def MethodHead_def MethodPost_def
      KeyContentType_def)

text \<open>An empty token after a data flag changes the method and sets the content type; after
  a second data flag it changes the body.\<close>

theorem empty_token_consumed_counterexample:
  "Method (snd (parse_args (table_lib [] []) (sanitize [''curl'', ''-d'', []]))) = ''POST'' \<and>
   Header (snd (parse_args (table_lib [] []) (sanitize [''curl'', ''-d'', []]))) ''content-type''
     = Some ''application/x-www-form-urlencoded'' \<and>
   Method (snd (parse_args (table_lib [] []) (sanitize [''curl'', ''-d'', []])))
     \<noteq> Method (snd (parse_args (table_lib [] []) (sanitize [''curl'', ''-d''])))  \<and>
   Body (snd (parse_args (table_lib [] []) (sanitize [''curl'', ''-d'', ''a'', ''-d'', []]))) = ''a&'' \<and>
   Body (snd (parse_args (table_lib [] []) (sanitize [''curl'', ''-d'', ''a'', ''-d'', []])))
     \<noteq> Body (snd (parse_args (table_lib [] []) (sanitize [''curl'', ''-d'', ''a'', ''-d''])))"
  by code_simp

section \<open>The token normalizer\<close>

lemma sanitize_loop_concat: "sanitize_loop res args = res @ concat (map sanitize_word args)"
  by (induction args arbitrary: res) (simp_all add: sanitize_word_def Let_def)

lemma sanitize_concat: "sanitize args = concat (map sanitize_word args)"
  by (simp add: sanitize_def sanitize_loop_concat)

lemma strip_newlines_free: "nl \<notin> set (strip_newlines s)"
  by (simp add: strip_newlines_def)

lemma sanitize_word_free: "t \<in> set (sanitize_word w) \<Longrightarrow> nl \<notin> set t"
  by (auto simp: sanitize_word_def Let_def strip_newlines_free
      split: if_splits dest: in_set_takeD in_set_dropD)

lemma sanitize_free: "t \<in> set (sanitize ws) \<Longrightarrow> nl \<notin> set t"
  by (auto simp: sanitize_concat dest: sanitize_word_free)

lemma isURL_newline_free: "nl \<notin> set t \<Longrightarrow> isURL t = url_shaped t"
  by (auto simp: isURL_def url_shaped_def dest: in_set_dropD)

lemma filter_isURL_sanitize: "filter isURL (sanitize ws) = filter url_shaped (sanitize ws)"
  by (rule filter_cong) (simp_all add: isURL_newline_free sanitize_free)

text \<open>
  Claim C8 says that a word that is exactly one newline is removed and no token is
  emitted for it. \<^const>\<open>sanitize\<close> compares the word with a newline only after
  \<^const>\<open>TrimSpace\<close>, which has already turned it into the empty string: the comparison
  never holds, and the word comes out as an empty token.
\<close>

theorem sanitize_newline_word: "sanitize [[nl]] = [[]]"
  by code_simp

text \<open>The trimmed word is never a single newline, for any word.\<close>

lemma trim_front_not_space:
  "trim_front encs s = c # t \<Longrightarrow> \<not> asciiSpace c"
proof (induction encs s rule: trim_front.induct)
  case (1 encs s)
  show ?case
  proof (cases "space_width encs s = 0")
    case True
    with "1.prems" have "s = c # t"
      by (simp add: trim_front.simps [of encs s])
    with True show ?thesis
      by (auto simp: space_width_def split: if_splits)
  next
    case False
    with "1.prems" have "trim_front encs (drop (space_width encs s) s) = c # t"
      by (simp add: trim_front.simps [of encs s])
    with "1.IH" False show ?thesis by simp
  qed
qed

lemma TrimSpace_not_newline: "TrimSpace w \<noteq> [nl]"
proof
  assume a: "TrimSpace w = [nl]"
  then have "rev (TrimSpace w) = [nl]" by simp
  then have "trim_front (map rev space_encodings) (rev (TrimLeftSpace w)) = [nl]"
    by (simp add: TrimSpace_def TrimRightSpace_def)
  then have "\<not> asciiSpace nl" by (rule trim_front_not_space)
  then show False by (simp add: asciiSpace_def nl_def)
qed

section \<open>The loop over the tokens\<close>

lemma parse_arg_URL_field: "URL (snd (parse_arg L st a)) = (if isURL a then a else URL (snd st))"
  by (cases st) (simp add: parse_arg_def consume_def Let_def split: prod.splits)

lemma foldl_URL_field:
  "URL (snd (foldl (parse_arg L) st ts))
     = (if filter isURL ts = [] then URL (snd st) else last (filter isURL ts))"
  by (induction ts rule: rev_induct) (simp_all add: parse_arg_URL_field)

lemma format_json_fields:
  "format_json L r0 = Inr r \<Longrightarrow> URL r = URL r0 \<and> Header r = Header r0 \<and> Method r = Method r0"
  by (auto simp: format_json_def split: if_splits sum.splits)

lemma Parse_Inr:
  "Parse L curl = Inr r \<Longrightarrow>
   \<exists>ws. shellwords_Parse L curl = Inr ws \<and> format_json L (snd (parse_args L (sanitize ws))) = Inr r"
  by (auto simp: Parse_def split: if_splits sum.splits)

lemma Parse_words:
  "HasPrefix curl ''curl '' \<Longrightarrow> shellwords_Parse L curl = Inr ws \<Longrightarrow>
   Parse L curl = format_json L (snd (parse_args L (sanitize ws)))"
  by (simp add: Parse_def Index_zero_iff)

lemma Parse_table_lib:
  "HasPrefix curl ''curl '' \<Longrightarrow>
   Parse (table_lib ws docs) curl
     = format_json (table_lib ws docs) (snd (parse_args (table_lib ws docs) (sanitize ws)))"
  by (simp add: Parse_words table_lib_def)

subsection \<open>The URL\<close>

text \<open>
  Claim C4, as the code has it. Every URL-shaped token is assigned to \<open>URL\<close>, each
  assignment replacing the one before. When \<^const>\<open>Parse\<close> returns a request, its URL
  is the last URL-shaped token of the normalized sequence, and the empty string when the
  sequence has none. On normalized tokens, which hold no newline, the pattern of
  \<^const>\<open>isURL\<close> is the test for the two prefixes.
\<close>

theorem url_is_last_url_token:
  assumes "Parse L curl = Inr r"
  shows "\<exists>ws. shellwords_Parse L curl = Inr ws \<and>
           URL r = (if filter url_shaped (sanitize ws) = [] then []
                    else last (filter url_shaped (sanitize ws)))"
proof -
  from assms obtain ws where ws: "shellwords_Parse L curl = Inr ws"
    and fj: "format_json L (snd (parse_args L (sanitize ws))) = Inr r"
    using Parse_Inr by blast
  have "URL r = URL (snd (parse_args L (sanitize ws)))"
    using format_json_fields [OF fj] by simp
  also have "\<dots> = (if filter url_shaped (sanitize ws) = [] then []
                    else last (filter url_shaped (sanitize ws)))"
    by (simp add: parse_args_def foldl_URL_field filter_isURL_sanitize new_request_def)
  finally show ?thesis using ws by blast
qed

theorem url_is_last_url_token_witness:
  "Parse (table_lib [''curl'', ''http://a'', ''http://b''] []) ''curl http://a http://b''
     = Inr (new_request\<lparr>URL := ''http://b''\<rparr>) \<and>
   filter url_shaped (sanitize [''curl'', ''http://a'', ''http://b'']) = [''http://a'', ''http://b''] \<and>
   URL (new_request\<lparr>URL := ''http://b''\<rparr>) = last [''http://a'', ''http://b'']"
proof -
  have s: "sanitize [''curl'', ''http://a'', ''http://b''] = [''curl'', ''http://a'', ''http://b'']"
    by code_simp
  have f: "filter url_shaped (sanitize [''curl'', ''http://a'', ''http://b'']) = [''http://a'', ''http://b'']"
    by code_simp
  have u: "isURL ''http://a''" "isURL ''http://b''" "\<not> isURL ''curl''" "\<not> isFlag ''curl''"
    by (simp_all add: isURL_def HasPrefix_def nl_def isFlag_def)
  have p: "Parse (table_lib [''curl'', ''http://a'', ''http://b''] []) ''curl http://a http://b''
     = Inr (new_request\<lparr>URL := ''http://b''\<rparr>)"
    using u
    by (simp add: Parse_table_lib HasPrefix_def s parse_args_def parse_arg_url parse_arg_default
        consume_def format_json_def new_request_def KeyContentType_def ContentTypeJSON_def)
  from url_is_last_url_token [OF p] show ?thesis
    using p f by (simp add: table_lib_def)
qed

text \<open>With two URL-shaped tokens the URL is the second one, not the first.\<close>

theorem url_first_counterexample:
  "URL (snd (parse_args (table_lib [] []) (sanitize [''curl'', ''http://a'', ''http://b''])))
     = ''http://b'' \<and>
   hd (filter url_shaped (sanitize [''curl'', ''http://a'', ''http://b''])) = ''http://a'' \<and>
   URL (snd (parse_args (table_lib [] []) (sanitize [''curl'', ''http://a'', ''http://b''])))
     \<noteq> hd (filter url_shaped (sanitize [''curl'', ''http://a'', ''http://b'']))"
  by code_simp

section \<open>Header names\<close>

lemma lower_byte_not_upper: "\<not> isUpperByte (lower_byte c)"
  by (auto simp: lower_byte_def isUpperByte_def)

lemma no_upper_map_lower: "no_upper (map lower_byte s)"
  by (simp add: no_upper_def list_all_iff lower_byte_not_upper)

lemma ToLower_no_upper:
  "\<forall>s. \<not> isASCII s \<longrightarrow> no_upper (umap s) \<Longrightarrow> no_upper (ToLower umap s)"
  by (simp add: ToLower_def no_upper_map_lower)

lemma no_upper_keys:
  "no_upper KeyContentType" "no_upper KeyUserAgent" "no_upper KeyCookie" "no_upper KeyAuthorization"
  by code_simp+

lemma consume_lower_keys:
  assumes "\<forall>s. \<not> isASCII s \<longrightarrow> no_upper (unicode_ToLower L s)"
    and "\<forall>k\<in>dom (Header req). no_upper k"
  shows "\<forall>k\<in>dom (Header (snd (consume L t req arg))). no_upper k"
  using assms(2) ToLower_no_upper [OF assms(1)] no_upper_keys
  by (auto simp: consume_def Let_def split: prod.splits if_splits)

lemma parse_arg_lower_keys:
  assumes "\<forall>s. \<not> isASCII s \<longrightarrow> no_upper (unicode_ToLower L s)"
    and "\<forall>k\<in>dom (Header (snd st)). no_upper k"
  shows "\<forall>k\<in>dom (Header (snd (parse_arg L st arg))). no_upper k"
proof (cases st)
  case (Pair t req)
  then show ?thesis
    using assms(2) consume_lower_keys [OF assms(1), of req t arg]
    by (simp add: parse_arg_def)
qed

lemma foldl_lower_keys:
  assumes "\<forall>s. \<not> isASCII s \<longrightarrow> no_upper (unicode_ToLower L s)"
    and "\<forall>k\<in>dom (Header (snd st)). no_upper k"
  shows "\<forall>k\<in>dom (Header (snd (foldl (parse_arg L) st ts))). no_upper k"
  using assms(2)
  by (induction ts rule: rev_induct) (simp_all add: parse_arg_lower_keys [OF assms(1)])

text \<open>
  Claim C5. When \<^const>\<open>Parse\<close> returns a request, no key of its header map holds
  one of the letters \<open>A\<close> to \<open>Z\<close>: the header flag stores under
  \<^const>\<open>ToLower\<close> of the name, and the user-agent, user and cookie flags and the
  defaulted content type store under lowercase constants. A name with a byte beyond
  ASCII is lowered by the Unicode tables of the Go library; of them the theorem asks
  that they yield none of the letters \<open>A\<close> to \<open>Z\<close>.
\<close>

theorem header_keys_lowercase:
  assumes "\<forall>s. \<not> isASCII s \<longrightarrow> no_upper (unicode_ToLower L s)"
    and "Parse L curl = Inr r"
  shows "\<forall>k\<in>dom (Header r). no_upper k"
proof -
  from assms(2) obtain ws where
    fj: "format_json L (snd (parse_args L (sanitize ws))) = Inr r"
    using Parse_Inr by blast
  have "\<forall>k\<in>dom (Header (snd (parse_args L (sanitize ws)))). no_upper k"
    unfolding parse_args_def
    by (rule foldl_lower_keys [OF assms(1)]) (simp add: new_request_def)
  then show ?thesis
    using format_json_fields [OF fj] by simp
qed


theorem header_keys_lowercase_witness:
  "Parse (table_lib [''curl'', ''-H'', ''Accept-Encoding: gzip'', ''-d'', ''x=1'', ''https://x''] [])
       ''curl -H 'Accept-Encoding: gzip' -d x=1 https://x''
     = Inr (snd (parse_args
         (table_lib [''curl'', ''-H'', ''Accept-Encoding: gzip'', ''-d'', ''x=1'', ''https://x''] [])
         (sanitize [''curl'', ''-H'', ''Accept-Encoding: gzip'', ''-d'', ''x=1'', ''https://x'']))) \<and>
   Header (snd (parse_args
         (table_lib [''curl'', ''-H'', ''Accept-Encoding: gzip'', ''-d'', ''x=1'', ''https://x''] [])
         (sanitize [''curl'', ''-H'', ''Accept-Encoding: gzip'', ''-d'', ''x=1'', ''https://x''])))
       ''accept-encoding'' = Some ''gzip'' \<and>
   no_upper ''accept-encoding''"
proof -
  let ?ws = "[''curl'', ''-H'', ''Accept-Encoding: gzip'', ''-d'', ''x=1'', ''https://x'']"
  let ?L = "table_lib ?ws []"
  let ?r = "snd (parse_args ?L (sanitize ?ws))"
  have lib: "\<forall>s. \<not> isASCII s \<longrightarrow> no_upper (unicode_ToLower ?L s)"
    by (simp add: table_lib_def no_upper_map_lower)
  have ct: "Header ?r KeyContentType = Some ''application/x-www-form-urlencoded''"
    by code_simp
  have h: "Header ?r ''accept-encoding'' = Some ''gzip''"
    by code_simp
  have p: "Parse ?L ''curl -H 'Accept-Encoding: gzip' -d x=1 https://x'' = Inr ?r"
    by (simp add: Parse_table_lib HasPrefix_def format_json_def ct ContentTypeJSON_def)
  from header_keys_lowercase [OF lib p] h have "no_upper ''accept-encoding''"
    by blast
  with p h show ?thesis by blast
qed

section \<open>The JSON body\<close>





end
